theory Spec2Isabelle
  imports Main "HOL-Library.AList" "HOL-Library.Multiset" "HOL-Library.Char_ord" "HOL-Library.List_Lexorder"
begin

section \<open>envmerge: the precedence resolution engine (internal/resolver/resolver.go)\<close>

text \<open>
  A shallow embedding of the Go package \<^verbatim>\<open>resolver\<close>. Go strings are byte sequences and
  are modelled as \<^typ>\<open>string\<close> (a list of 8-bit characters); the order \<open><\<close> on
  strings is the bytewise lexicographic one, as Go's.
\<close>

subsection \<open>Data model\<close>

datatype Layer =
    LayerEnvExample
  | LayerEnv
  | LayerEnvLocal
  | LayerEnvOther
  | LayerComposeEnvFile
  | LayerComposeInline
  | LayerOSEnv

fun Precedence :: "Layer \<Rightarrow> int" where
  "Precedence LayerEnvExample = 0"
| "Precedence LayerEnv = 1"
| "Precedence LayerEnvLocal = 2"
| "Precedence LayerEnvOther = 3"
| "Precedence LayerComposeEnvFile = 4"
| "Precedence LayerComposeInline = 5"
| "Precedence LayerOSEnv = 6"

record Source =
  Layer :: Layer
  File :: string
  Line :: nat
  Service :: string
  Value :: string
  IsInline :: bool

record Variable =
  Name :: string
  FinalValue :: string
  FinalFrom :: Source
  Chain :: "Source list"
  Overridden :: bool
  Conflicts :: "string list"

text \<open>Go's zero values \<^verbatim>\<open>Source{}\<close> and \<^verbatim>\<open>Variable{Name: name}\<close>.\<close>

definition zeroSource :: Source where
  "zeroSource = \<lparr>Layer = LayerEnvExample, File = [], Line = 0, Service = [], Value = [],
     IsInline = False\<rparr>"

definition newVariable :: "string \<Rightarrow> Variable" where
  "newVariable name = \<lparr>Name = name, FinalValue = [], FinalFrom = zeroSource, Chain = [],
     Overridden = False, Conflicts = []\<rparr>"

subsection \<open>unquote\<close>

definition dquote :: char where
  "dquote = CHR 0x22"

definition squote :: char where
  "squote = CHR 0x27"

text \<open>\<^verbatim>\<open>s[1 : len(s)-1]\<close> is \<open>drop 1 (take (length s - 1) s)\<close>.\<close>

definition unquote :: "string \<Rightarrow> string" where
  "unquote s =
     (if 2 \<le> length s then
        (if (s ! 0 = dquote \<and> s ! (length s - 1) = dquote) \<or>
            (s ! 0 = squote \<and> s ! (length s - 1) = squote)
         then drop 1 (take (length s - 1) s)
         else s)
      else s)"

subsection \<open>The Go runtime: sorting and map iteration\<close>

text \<open>
  \<^verbatim>\<open>sort.Slice\<close> is documented as a sort that is not guaranteed to be stable, and the
  iteration order of a Go map is unspecified. Both are parameters of the model: a
  \<open>sort\<close> field stands for \<^verbatim>\<open>sort.Slice\<close> at one element type, a \<open>range\<close> field for the
  order in which one \<^verbatim>\<open>range\<close> statement visits the entries of a map. A Go map is an
  association list with distinct keys (\<^const>\<open>AList.update\<close> stores, \<^const>\<open>map_of\<close> looks up).
  A \<^verbatim>\<open>*Variable\<close> is an address: an index into the list \<open>heap\<close> of the Variable
  objects allocated so far.
\<close>

type_synonym addr = nat

record DiffVar =
  DiffName :: string
  FirstValue :: string
  SecondValue :: string

text \<open>
  A decoded YAML value (\<^verbatim>\<open>interface{}\<close>): nil, a string, any other scalar, a sequence,
  a mapping with string keys.
\<close>

datatype yaml =
    YNil
  | YString string
  | YScalar string
  | YSeq "yaml list"
  | YMap "(string \<times> yaml) list"

record composeService =
  Environment :: yaml
  EnvFile :: yaml

record runtime =
  sortSources :: "(Source \<Rightarrow> Source \<Rightarrow> bool) \<Rightarrow> Source list \<Rightarrow> Source list"
  sortAddrs :: "(addr \<Rightarrow> addr \<Rightarrow> bool) \<Rightarrow> addr list \<Rightarrow> addr list"
  sortDiffs :: "(DiffVar \<Rightarrow> DiffVar \<Rightarrow> bool) \<Rightarrow> DiffVar list \<Rightarrow> DiffVar list"
  rangeByName :: "(string \<times> addr) list \<Rightarrow> (string \<times> addr) list"
  rangeValues :: "(string \<times> bool) list \<Rightarrow> (string \<times> bool) list"
  rangeServices :: "(string \<times> composeService) list \<Rightarrow> (string \<times> composeService) list"
  rangeEnv :: "(string \<times> yaml) list \<Rightarrow> (string \<times> yaml) list"
  rangeOnlyFirst :: "(string \<times> string) list \<Rightarrow> (string \<times> string) list"
  rangeOnlySecond :: "(string \<times> string) list \<Rightarrow> (string \<times> string) list"
  rangeBoth :: "(string \<times> string) list \<Rightarrow> (string \<times> string) list"

text \<open>What Go promises: a sort returns a sorted permutation, a range visits every entry once.\<close>

definition sorts :: "(('a \<Rightarrow> 'a \<Rightarrow> bool) \<Rightarrow> 'a list \<Rightarrow> 'a list) \<Rightarrow> ('a \<Rightarrow> 'a \<Rightarrow> bool) \<Rightarrow> bool" where
  "sorts srt lt \<longleftrightarrow>
     (\<forall>xs. mset (srt lt xs) = mset xs \<and> sorted_wrt (\<lambda>a b. \<not> lt b a) (srt lt xs))"

definition permutes :: "('a list \<Rightarrow> 'a list) \<Rightarrow> bool" where
  "permutes rng \<longleftrightarrow> (\<forall>xs. mset (rng xs) = mset xs)"

subsection \<open>The operating system and the YAML decoder\<close>

text \<open>
  The collaborators of the package, as parameters. An error is the text \<^verbatim>\<open>%v\<close> prints
  for it. \<open>Open\<close> gives \<open>Inl err\<close> when the file cannot be opened, else the bytes that can
  be read and the I/O error that ends the reading, if any. \<open>ReadDir\<close> gives the names
  \<^verbatim>\<open>os.ReadDir\<close> lists (sorted by name; its error is dropped by the caller). \<open>Sprint\<close> is
  \<^verbatim>\<open>fmt.Sprintf("%v", _)\<close> on a value that is no string.
\<close>

record world =
  pathJoin :: "string \<Rightarrow> string \<Rightarrow> string"
  pathDir :: "string \<Rightarrow> string"
  Stat :: "string \<Rightarrow> bool"
  Open :: "string \<Rightarrow> string + (string \<times> string option)"
  ReadDir :: "string \<Rightarrow> string list"
  Environ :: "string list"
  Unmarshal :: "string \<Rightarrow> string + (string \<times> composeService) list"
  Sprint :: "yaml \<Rightarrow> string"

definition ReadFile :: "world \<Rightarrow> string \<Rightarrow> string + string" where
  "ReadFile w path =
     (case Open w path of
        Inl err \<Rightarrow> Inl err
      | Inr (dat, Some err) \<Rightarrow> Inl err
      | Inr (dat, None) \<Rightarrow> Inr dat)"

subsection \<open>strings, bufio, fmt\<close>

definition HasPrefix :: "string \<Rightarrow> string \<Rightarrow> bool" where
  "HasPrefix s p \<longleftrightarrow> take (length p) s = p"

definition TrimPrefix :: "string \<Rightarrow> string \<Rightarrow> string" where
  "TrimPrefix s p = (if HasPrefix s p then drop (length p) s else s)"

text \<open>
  \<^verbatim>\<open>strings.TrimSpace\<close> removes leading and trailing white space as Unicode defines it:
  the six ASCII characters and the UTF-8 encodings of U+0085, U+00A0, U+1680,
  U+2000 to U+200A, U+2028, U+2029, U+202F, U+205F and U+3000.
\<close>

definition spaceSeqs :: "string list" where
  "spaceSeqs =
     [[CHR 0x09], [CHR 0x0A], [CHR 0x0B], [CHR 0x0C], [CHR 0x0D], [CHR 0x20],
      [CHR 0xC2, CHR 0x85], [CHR 0xC2, CHR 0xA0],
      [CHR 0xE1, CHR 0x9A, CHR 0x80],
      [CHR 0xE2, CHR 0x80, CHR 0x80], [CHR 0xE2, CHR 0x80, CHR 0x81],
      [CHR 0xE2, CHR 0x80, CHR 0x82], [CHR 0xE2, CHR 0x80, CHR 0x83],
      [CHR 0xE2, CHR 0x80, CHR 0x84], [CHR 0xE2, CHR 0x80, CHR 0x85],
      [CHR 0xE2, CHR 0x80, CHR 0x86], [CHR 0xE2, CHR 0x80, CHR 0x87],
      [CHR 0xE2, CHR 0x80, CHR 0x88], [CHR 0xE2, CHR 0x80, CHR 0x89],
      [CHR 0xE2, CHR 0x80, CHR 0x8A],
      [CHR 0xE2, CHR 0x80, CHR 0xA8], [CHR 0xE2, CHR 0x80, CHR 0xA9],
      [CHR 0xE2, CHR 0x80, CHR 0xAF], [CHR 0xE2, CHR 0x81, CHR 0x9F],
      [CHR 0xE3, CHR 0x80, CHR 0x80]]"

definition spaceWidth :: "string list \<Rightarrow> string \<Rightarrow> nat" where
  "spaceWidth seqs s =
     (case find (\<lambda>p. HasPrefix s p) seqs of None \<Rightarrow> 0 | Some p \<Rightarrow> length p)"

fun trimLeft :: "string list \<Rightarrow> string \<Rightarrow> string" where
  "trimLeft seqs [] = []"
| "trimLeft seqs (c # cs) =
     (if spaceWidth seqs (c # cs) = 0 then c # cs
      else trimLeft seqs (drop (spaceWidth seqs (c # cs) - 1) cs))"

definition TrimSpace :: "string \<Rightarrow> string" where
  "TrimSpace s = rev (trimLeft (map rev spaceSeqs) (rev (trimLeft spaceSeqs s)))"

text \<open>\<^verbatim>\<open>strings.SplitN(s, "=", 2)\<close>: one part when there is no \<^verbatim>\<open>=\<close>, else two.\<close>

definition SplitN2 :: "string \<Rightarrow> string list" where
  "SplitN2 s =
     (if CHR ''='' \<in> set s
      then [takeWhile (\<lambda>c. c \<noteq> CHR ''='') s, drop 1 (dropWhile (\<lambda>c. c \<noteq> CHR ''='') s)]
      else [s])"

text \<open>\<^verbatim>\<open>strings.Join\<close> and \<^verbatim>\<open>%d\<close>.\<close>

fun Join :: "string list \<Rightarrow> string \<Rightarrow> string" where
  "Join [] sep = []"
| "Join [x] sep = x"
| "Join (x # y # ys) sep = x @ sep @ Join (y # ys) sep"

definition digit :: "nat \<Rightarrow> char" where
  "digit d = char_of (48 + d)"

fun showNat :: "nat \<Rightarrow> string" where
  "showNat n = (if n < 10 then [digit n] else showNat (n div 10) @ [digit (n mod 10)])"

declare showNat.simps [simp del]

text \<open>
  \<^verbatim>\<open>bufio.Scanner\<close> with \<^verbatim>\<open>ScanLines\<close>: the input is cut after each newline, a last line
  without a newline counts when it is not empty, and one trailing carriage return is
  dropped from each line. A line of 65536 bytes or more does not fit the scanner's buffer:
  the scan stops there with \<^verbatim>\<open>ErrTooLong\<close>.
\<close>

fun rawLines :: "string \<Rightarrow> string \<Rightarrow> string list" where
  "rawLines cur [] = (if cur = [] then [] else [cur])"
| "rawLines cur (c # cs) =
     (if c = CHR 0x0A then cur # rawLines [] cs else rawLines (cur @ [c]) cs)"

definition dropCR :: "string \<Rightarrow> string" where
  "dropCR s = (if s \<noteq> [] \<and> last s = CHR 0x0D then butlast s else s)"

definition MaxScanTokenSize :: nat where
  "MaxScanTokenSize = 65536"

definition ErrTooLong :: string where
  "ErrTooLong = ''bufio.Scanner: token too long''"

text \<open>The lines \<^verbatim>\<open>scanner.Text()\<close> yields, and \<^verbatim>\<open>scanner.Err()\<close> after the loop.\<close>

definition scanText :: "string \<Rightarrow> string list" where
  "scanText dat = map dropCR (takeWhile (\<lambda>l. length l < MaxScanTokenSize) (rawLines [] dat))"

definition scanErr :: "string \<Rightarrow> string option \<Rightarrow> string option" where
  "scanErr dat ioerr =
     (if list_ex (\<lambda>l. \<not> length l < MaxScanTokenSize) (rawLines [] dat) then Some ErrTooLong
      else ioerr)"

subsection \<open>Resolution\<close>

record Resolution =
  Path :: string
  heap :: "Variable list"
  Variables :: "addr list"
  ByName :: "(string \<times> addr) list"
  EnvFiles :: "string list"
  ComposeFiles :: "string list"
  Warnings :: "string list"
  Undefined :: "string list"

record Options =
  IncludeOSEnv :: bool
  ServiceName :: string
  StrictMode :: bool
  CompareWith :: string

definition newResolution :: "string \<Rightarrow> Resolution" where
  "newResolution basePath = \<lparr>Path = basePath, heap = [], Variables = [], ByName = [],
     EnvFiles = [], ComposeFiles = [], Warnings = [], Undefined = []\<rparr>"

text \<open>The Variable a pointer refers to.\<close>

definition deref :: "Resolution \<Rightarrow> addr \<Rightarrow> Variable" where
  "deref r a = heap r ! a"

definition addSource :: "string \<Rightarrow> Source \<Rightarrow> Resolution \<Rightarrow> Resolution" where
  "addSource name src r =
     (case map_of (ByName r) name of
        None \<Rightarrow>
          r\<lparr>heap := heap r @ [(newVariable name)\<lparr>Chain := [src]\<rparr>],
            ByName := AList.update name (length (heap r)) (ByName r)\<rparr>
      | Some a \<Rightarrow>
          r\<lparr>heap := (heap r)[a := (heap r ! a)\<lparr>Chain := Chain (heap r ! a) @ [src]\<rparr>]\<rparr>)"

subsection \<open>Source ingestion\<close>

text \<open>The body of the scanning loop of \<^verbatim>\<open>parseEnvFile\<close>, for the line numbered \<open>lineNum\<close>.\<close>

definition envLine :: "string \<Rightarrow> Layer \<Rightarrow> nat \<Rightarrow> string \<Rightarrow> Resolution \<Rightarrow> Resolution" where
  "envLine path layer lineNum text r =
     (let line = TrimSpace text in
      if line = [] \<or> HasPrefix line ''#'' then r
      else
        let line = TrimSpace (TrimPrefix line ''export '') in
        (case SplitN2 line of
           [k, v] \<Rightarrow>
             let key = TrimSpace k; val = unquote (TrimSpace v) in
             if key = [] then r
             else addSource key
               \<lparr>Layer = layer, File = path, Line = lineNum, Service = [], Value = val,
                 IsInline = False\<rparr> r
         | _ \<Rightarrow> r))"

primrec parseEnvLines :: "string \<Rightarrow> Layer \<Rightarrow> nat \<Rightarrow> string list \<Rightarrow> Resolution \<Rightarrow> Resolution" where
  "parseEnvLines path layer lineNum [] r = r"
| "parseEnvLines path layer lineNum (text # rest) r =
     parseEnvLines path layer (lineNum + 1) rest (envLine path layer (lineNum + 1) text r)"

definition parseEnvFile :: "world \<Rightarrow> string \<Rightarrow> Layer \<Rightarrow> Resolution \<Rightarrow> Resolution \<times> string option" where
  "parseEnvFile w path layer r =
     (case Open w path of
        Inl err \<Rightarrow> (r, Some err)
      | Inr (dat, ioerr) \<Rightarrow> (parseEnvLines path layer 0 (scanText dat) r, scanErr dat ioerr))"

text \<open>The body of the scanning loop of \<^verbatim>\<open>parseEnvFileRef\<close>.\<close>

definition refLine :: "string \<Rightarrow> string \<Rightarrow> nat \<Rightarrow> string \<Rightarrow> Resolution \<Rightarrow> Resolution" where
  "refLine envPath serviceName lineNum text r =
     (let line = TrimSpace text in
      if line = [] \<or> HasPrefix line ''#'' then r
      else
        (case SplitN2 line of
           [k, v] \<Rightarrow>
             let key = TrimSpace k; val = unquote (TrimSpace v) in
             addSource key
               \<lparr>Layer = LayerComposeEnvFile, File = envPath, Line = lineNum,
                 Service = serviceName, Value = val, IsInline = False\<rparr> r
         | _ \<Rightarrow> r))"

primrec parseRefLines :: "string \<Rightarrow> string \<Rightarrow> nat \<Rightarrow> string list \<Rightarrow> Resolution \<Rightarrow> Resolution" where
  "parseRefLines envPath serviceName lineNum [] r = r"
| "parseRefLines envPath serviceName lineNum (text # rest) r =
     parseRefLines envPath serviceName (lineNum + 1) rest
       (refLine envPath serviceName (lineNum + 1) text r)"

definition envFileList :: "yaml \<Rightarrow> string list" where
  "envFileList envFile =
     (case envFile of
        YString v \<Rightarrow> [v]
      | YSeq v \<Rightarrow> concat (map (\<lambda>f. case f of YString s \<Rightarrow> [s] | _ \<Rightarrow> []) v)
      | _ \<Rightarrow> [])"

definition parseEnvFileRef :: "world \<Rightarrow> string \<Rightarrow> string \<Rightarrow> yaml \<Rightarrow> Resolution \<Rightarrow> Resolution" where
  "parseEnvFileRef w composePath serviceName envFile r =
     fold (\<lambda>f r.
        let envPath = pathJoin w (pathDir w composePath) f in
        if Stat w envPath then
          (case Open w envPath of
             Inl err \<Rightarrow> r
           | Inr (dat, ioerr) \<Rightarrow> parseRefLines envPath serviceName 0 (scanText dat) r)
        else r)
       (envFileList envFile) r"

definition inlineSource :: "string \<Rightarrow> string \<Rightarrow> string \<Rightarrow> Source" where
  "inlineSource composePath serviceName val =
     \<lparr>Layer = LayerComposeInline, File = composePath, Line = 0, Service = serviceName,
       Value = val, IsInline = True\<rparr>"

definition parseInlineEnv :: "world \<Rightarrow> runtime \<Rightarrow> string \<Rightarrow> string \<Rightarrow> yaml \<Rightarrow> Resolution \<Rightarrow> Resolution" where
  "parseInlineEnv w rt composePath serviceName env r =
     (case env of
        YMap v \<Rightarrow>
          fold (\<lambda>(key, val) r.
             addSource key (inlineSource composePath serviceName
               (case val of YNil \<Rightarrow> [] | YString s \<Rightarrow> s | _ \<Rightarrow> Sprint w val)) r)
            (rangeEnv rt v) r
      | YSeq v \<Rightarrow>
          fold (\<lambda>item r.
             case item of
               YString s \<Rightarrow>
                 (let parts = SplitN2 s in
                  addSource (parts ! 0) (inlineSource composePath serviceName
                    (if length parts = 2 then parts ! 1 else [])) r)
             | _ \<Rightarrow> r)
            v r
      | _ \<Rightarrow> r)"

definition parseComposeFile :: "world \<Rightarrow> runtime \<Rightarrow> string \<Rightarrow> Resolution \<Rightarrow> Resolution \<times> string option" where
  "parseComposeFile w rt path r =
     (case ReadFile w path of
        Inl err \<Rightarrow> (r, Some err)
      | Inr dat \<Rightarrow>
          (case Unmarshal w dat of
             Inl err \<Rightarrow> (r, Some err)
           | Inr services \<Rightarrow>
               (fold (\<lambda>(serviceName, svc) r.
                   let r = (if EnvFile svc \<noteq> YNil
                            then parseEnvFileRef w path serviceName (EnvFile svc) r else r)
                   in if Environment svc \<noteq> YNil
                      then parseInlineEnv w rt path serviceName (Environment svc) r else r)
                  (rangeServices rt services) r,
                None)))"

definition envPatterns :: "(string \<times> Layer) list" where
  "envPatterns =
     [(''.env.example'', LayerEnvExample), (''.env'', LayerEnv), (''.env.local'', LayerEnvLocal)]"

definition composePatterns :: "string list" where
  "composePatterns =
     [''docker-compose.yml'', ''docker-compose.yaml'', ''compose.yml'', ''compose.yaml'']"

text \<open>\<^verbatim>\<open>fmt.Sprintf("Error parsing %s: %v", name, err)\<close>, appended to the warnings.\<close>

definition warnOn :: "string \<Rightarrow> Resolution \<times> string option \<Rightarrow> Resolution" where
  "warnOn name res =
     (case res of
        (r, None) \<Rightarrow> r
      | (r, Some err) \<Rightarrow> r\<lparr>Warnings := Warnings r @ [''Error parsing '' @ name @ '': '' @ err]\<rparr>)"

definition scanEnvPattern :: "world \<Rightarrow> string \<Rightarrow> string \<times> Layer \<Rightarrow> Resolution \<Rightarrow> Resolution" where
  "scanEnvPattern w basePath ep r =
     (let envPath = pathJoin w basePath (fst ep) in
      if Stat w envPath
      then warnOn (fst ep) (parseEnvFile w envPath (snd ep) (r\<lparr>EnvFiles := EnvFiles r @ [envPath]\<rparr>))
      else r)"

definition scanEnvOther :: "world \<Rightarrow> string \<Rightarrow> string \<Rightarrow> Resolution \<Rightarrow> Resolution" where
  "scanEnvOther w basePath name r =
     (if HasPrefix name ''.env.'' \<and> name \<noteq> ''.env.example'' \<and> name \<noteq> ''.env.local'' then
        (let envPath = pathJoin w basePath name in
         warnOn name (parseEnvFile w envPath LayerEnvOther (r\<lparr>EnvFiles := EnvFiles r @ [envPath]\<rparr>)))
      else r)"

definition scanComposePattern :: "world \<Rightarrow> runtime \<Rightarrow> string \<Rightarrow> string \<Rightarrow> Resolution \<Rightarrow> Resolution" where
  "scanComposePattern w rt basePath pattern r =
     (let composePath = pathJoin w basePath pattern in
      if Stat w composePath
      then warnOn pattern
             (parseComposeFile w rt composePath (r\<lparr>ComposeFiles := ComposeFiles r @ [composePath]\<rparr>))
      else r)"

text \<open>Steps 1 and 2 of \<^verbatim>\<open>ResolveWithOptions\<close>.\<close>

definition ingest :: "world \<Rightarrow> runtime \<Rightarrow> string \<Rightarrow> Resolution" where
  "ingest w rt basePath =
     fold (scanComposePattern w rt basePath) composePatterns
       (fold (scanEnvOther w basePath) (ReadDir w basePath)
          (fold (scanEnvPattern w basePath) envPatterns (newResolution basePath)))"

subsection \<open>Precedence resolution\<close>

definition byPrecedence :: "Source \<Rightarrow> Source \<Rightarrow> bool" where
  "byPrecedence a b \<longleftrightarrow> Precedence (Layer a) < Precedence (Layer b)"

text \<open>The map \<^verbatim>\<open>values\<close> of step 3: the non-empty values of the chain, as keys.\<close>

definition collectValues :: "Source list \<Rightarrow> (string \<times> bool) list" where
  "collectValues chain =
     fold (\<lambda>src vals. if Value src \<noteq> [] then AList.update (Value src) True vals else vals)
       chain []"

text \<open>The body of the loop of step 3, on one Variable.\<close>

definition finalizeVar :: "runtime \<Rightarrow> Variable \<Rightarrow> Variable" where
  "finalizeVar rt v0 =
     (let v1 = v0\<lparr>Chain := sortSources rt byPrecedence (Chain v0)\<rparr>;
          v2 = (if length (Chain v1) > 0
                then v1\<lparr>FinalFrom := last (Chain v1), FinalValue := Value (last (Chain v1))\<rparr>
                else v1);
          vals = collectValues (Chain v2)
      in if length vals > 1
         then v2\<lparr>Overridden := True,
                 Conflicts := Conflicts v2 @
                   filter (\<lambda>val. val \<noteq> FinalValue v2) (map fst (rangeValues rt vals))\<rparr>
         else v2)"

definition finalizeAll :: "runtime \<Rightarrow> Resolution \<Rightarrow> Resolution" where
  "finalizeAll rt r =
     fold (\<lambda>(name, a) r.
        r\<lparr>heap := (heap r)[a := finalizeVar rt (heap r ! a)], Variables := Variables r @ [a]\<rparr>)
       (rangeByName rt (ByName r)) r"

definition sortVariables :: "runtime \<Rightarrow> Resolution \<Rightarrow> Resolution" where
  "sortVariables rt r =
     r\<lparr>Variables := sortAddrs rt (\<lambda>i j. Name (heap r ! i) < Name (heap r ! j)) (Variables r)\<rparr>"

definition osSource :: "string \<Rightarrow> Source" where
  "osSource val =
     \<lparr>Layer = LayerOSEnv, File = ''environment'', Line = 0, Service = [], Value = val,
       IsInline = False\<rparr>"

text \<open>The body of the loop over \<^verbatim>\<open>os.Environ()\<close>.\<close>

definition mergeEnv :: "string \<Rightarrow> Resolution \<Rightarrow> Resolution" where
  "mergeEnv env r =
     (case SplitN2 env of
        [key, val] \<Rightarrow>
          (case map_of (ByName r) key of
             Some a \<Rightarrow>
               (let r = addSource key (osSource val) r in
                r\<lparr>heap := (heap r)[a := (heap r ! a)\<lparr>FinalValue := val,
                   FinalFrom := osSource val, Overridden := True\<rparr>]\<rparr>)
           | None \<Rightarrow> r)
      | _ \<Rightarrow> r)"

definition mergeOSEnv :: "world \<Rightarrow> Resolution \<Rightarrow> Resolution" where
  "mergeOSEnv w r = fold mergeEnv (Environ w) r"

definition usedByService :: "string \<Rightarrow> Variable \<Rightarrow> bool" where
  "usedByService serviceName v \<longleftrightarrow>
     list_ex (\<lambda>src. Service src = serviceName \<or> Service src = []) (Chain v)"

definition filterToService :: "string \<Rightarrow> Resolution \<Rightarrow> Resolution" where
  "filterToService serviceName r =
     r\<lparr>Variables := filter (\<lambda>a. usedByService serviceName (heap r ! a)) (Variables r)\<rparr>"

definition hasDefinition :: "Variable \<Rightarrow> bool" where
  "hasDefinition v \<longleftrightarrow> list_ex (\<lambda>src. Value src \<noteq> []) (Chain v)"

definition findUndefinedVars :: "Resolution \<Rightarrow> Resolution" where
  "findUndefinedVars r =
     fold (\<lambda>a r.
        if FinalValue (heap r ! a) = [] then
          (if \<not> hasDefinition (heap r ! a)
           then r\<lparr>Undefined := Undefined r @ [Name (heap r ! a)]\<rparr> else r)
        else r)
       (Variables r) r"

text \<open>The error of strict mode, \<^verbatim>\<open>"strict mode: %d undefined variable(s): %s"\<close>.\<close>

definition strictError :: "string list \<Rightarrow> string" where
  "strictError names =
     ''strict mode: '' @ showNat (length names) @ '' undefined variable(s): '' @
       Join names '', ''"

definition ResolveWithOptions :: "world \<Rightarrow> runtime \<Rightarrow> string \<Rightarrow> Options \<Rightarrow> Resolution \<times> string option" where
  "ResolveWithOptions w rt basePath opts =
     (let r = ingest w rt basePath;
          r = finalizeAll rt r;
          r = sortVariables rt r;
          r = (if IncludeOSEnv opts then mergeOSEnv w r else r);
          r = (if ServiceName opts \<noteq> [] then filterToService (ServiceName opts) r else r)
      in if StrictMode opts then
           (let r = findUndefinedVars r in
            if length (Undefined r) > 0 then (r, Some (strictError (Undefined r)))
            else (r, None))
         else (r, None))"

definition Resolve :: "world \<Rightarrow> runtime \<Rightarrow> string \<Rightarrow> Resolution \<times> string option" where
  "Resolve w rt basePath =
     ResolveWithOptions w rt basePath
       \<lparr>IncludeOSEnv = False, ServiceName = [], StrictMode = False, CompareWith = []\<rparr>"

subsection \<open>Compare\<close>

record CompareResult =
  OnlyInFirst :: "string list"
  OnlyInSecond :: "string list"
  Different :: "DiffVar list"
  Same :: "string list"

text \<open>The map from name to final value that \<^verbatim>\<open>Compare\<close> builds for one side.\<close>

definition finalValues :: "Resolution \<Rightarrow> (string \<times> string) list" where
  "finalValues r =
     fold (\<lambda>a m. AList.update (Name (heap r ! a)) (FinalValue (heap r ! a)) m) (Variables r) []"

text \<open>
  \<^verbatim>\<open>sort.Strings\<close> is \<^const>\<open>sort\<close>: equal strings are the same string, so every sorting
  algorithm returns the same list.
\<close>

definition Compare :: "runtime \<Rightarrow> Resolution \<Rightarrow> Resolution \<Rightarrow> CompareResult" where
  "Compare rt first second =
     (let firstVars = finalValues first;
          secondVars = finalValues second;
          onlyInFirst =
            map fst (filter (\<lambda>(name, _). map_of secondVars name = None)
              (rangeOnlyFirst rt firstVars));
          onlyInSecond =
            map fst (filter (\<lambda>(name, _). map_of firstVars name = None)
              (rangeOnlySecond rt secondVars));
          different =
            List.map_filter (\<lambda>(name, firstVal).
                case map_of secondVars name of
                  Some secondVal \<Rightarrow>
                    if firstVal \<noteq> secondVal
                    then Some \<lparr>DiffName = name, FirstValue = firstVal, SecondValue = secondVal\<rparr>
                    else None
                | None \<Rightarrow> None)
              (rangeBoth rt firstVars);
          same =
            List.map_filter (\<lambda>(name, firstVal).
                case map_of secondVars name of
                  Some secondVal \<Rightarrow> if firstVal \<noteq> secondVal then None else Some name
                | None \<Rightarrow> None)
              (rangeBoth rt firstVars)
      in \<lparr>OnlyInFirst = sort onlyInFirst,
          OnlyInSecond = sort onlyInSecond,
          Different = sortDiffs rt (\<lambda>a b. DiffName a < DiffName b) different,
          Same = sort same\<rparr>)"

subsection \<open>Runtimes that meet Go's documentation\<close>

text \<open>
  What the model asks of a runtime in \<^verbatim>\<open>ResolveWithOptions\<close> and in \<^verbatim>\<open>Compare\<close>: each
  \<^verbatim>\<open>sort.Slice\<close> call returns a permutation sorted by the comparison it was given, each
  \<^verbatim>\<open>range\<close> visits the entries of its map once, in some order.
\<close>

definition resolveRuntime :: "runtime \<Rightarrow> bool" where
  "resolveRuntime rt \<longleftrightarrow>
     sorts (sortSources rt) byPrecedence \<and>
     (\<forall>h :: Variable list. sorts (sortAddrs rt) (\<lambda>i j. Name (h ! i) < Name (h ! j))) \<and>
     permutes (rangeByName rt) \<and> permutes (rangeValues rt) \<and>
     permutes (rangeServices rt) \<and> permutes (rangeEnv rt)"

definition compareRuntime :: "runtime \<Rightarrow> bool" where
  "compareRuntime rt \<longleftrightarrow>
     sorts (sortDiffs rt) (\<lambda>a b. DiffName a < DiffName b) \<and>
     permutes (rangeOnlyFirst rt) \<and> permutes (rangeOnlySecond rt) \<and> permutes (rangeBoth rt)"

text \<open>
  Two such runtimes. The first sorts by insertion behind the elements that are not
  greater (a stable sort) and ranges over a map in the order of insertion. The second
  sorts by insertion in front of the elements that are not smaller, which reverses equal
  elements, and ranges in the opposite order.
\<close>

fun insertBy :: "('a \<Rightarrow> 'a \<Rightarrow> bool) \<Rightarrow> 'a \<Rightarrow> 'a list \<Rightarrow> 'a list" where
  "insertBy lt x [] = [x]"
| "insertBy lt x (y # ys) = (if lt x y then x # y # ys else y # insertBy lt x ys)"

definition insertionSort :: "('a \<Rightarrow> 'a \<Rightarrow> bool) \<Rightarrow> 'a list \<Rightarrow> 'a list" where
  "insertionSort lt xs = fold (insertBy lt) xs []"

fun insertFront :: "('a \<Rightarrow> 'a \<Rightarrow> bool) \<Rightarrow> 'a \<Rightarrow> 'a list \<Rightarrow> 'a list" where
  "insertFront lt x [] = [x]"
| "insertFront lt x (y # ys) = (if lt y x then y # insertFront lt x ys else x # y # ys)"

definition reversingSort :: "('a \<Rightarrow> 'a \<Rightarrow> bool) \<Rightarrow> 'a list \<Rightarrow> 'a list" where
  "reversingSort lt xs = fold (insertFront lt) xs []"

definition stableRuntime :: runtime where
  "stableRuntime =
     \<lparr>sortSources = insertionSort, sortAddrs = insertionSort, sortDiffs = insertionSort,
       rangeByName = id, rangeValues = id, rangeServices = id, rangeEnv = id,
       rangeOnlyFirst = id, rangeOnlySecond = id, rangeBoth = id\<rparr>"

definition reversingRuntime :: runtime where
  "reversingRuntime =
     \<lparr>sortSources = reversingSort, sortAddrs = reversingSort, sortDiffs = reversingSort,
       rangeByName = rev, rangeValues = rev, rangeServices = rev, rangeEnv = rev,
       rangeOnlyFirst = rev, rangeOnlySecond = rev, rangeBoth = rev\<rparr>"

subsection \<open>Auxiliary notions for the statements\<close>

text \<open>A pair of \<^verbatim>\<open>Different\<close> with its two values exchanged.\<close>

definition swapDiff :: "DiffVar \<Rightarrow> DiffVar" where
  "swapDiff d = \<lparr>DiffName = DiffName d, FirstValue = SecondValue d, SecondValue = FirstValue d\<rparr>"

text \<open>The two branches of the third loop of \<^verbatim>\<open>Compare\<close>, for one entry of \<^verbatim>\<open>firstVars\<close>.\<close>

definition diffEntry :: "(string \<times> string) list \<Rightarrow> string \<times> string \<Rightarrow> DiffVar option" where
  "diffEntry secondVars =
     (\<lambda>(name, firstVal).
        case map_of secondVars name of
          Some secondVal \<Rightarrow>
            if firstVal \<noteq> secondVal
            then Some \<lparr>DiffName = name, FirstValue = firstVal, SecondValue = secondVal\<rparr>
            else None
        | None \<Rightarrow> None)"

definition sameEntry :: "(string \<times> string) list \<Rightarrow> string \<times> string \<Rightarrow> string option" where
  "sameEntry secondVars =
     (\<lambda>(name, firstVal).
        case map_of secondVars name of
          Some secondVal \<Rightarrow> if firstVal \<noteq> secondVal then None else Some name
        | None \<Rightarrow> None)"

subsection \<open>Sample inputs\<close>

text \<open>Two finished Resolutions with the final values X=1, Y=2, Z=3 and W=0, Y=5, Z=3.\<close>

definition sampleVar :: "string \<Rightarrow> string \<Rightarrow> Variable" where
  "sampleVar name val =
     \<lparr>Name = name, FinalValue = val, FinalFrom = osSource val, Chain = [osSource val],
       Overridden = False, Conflicts = []\<rparr>"

definition sampleFirst :: Resolution where
  "sampleFirst = (newResolution ''a'')
     \<lparr>heap := [sampleVar ''X'' ''1'', sampleVar ''Y'' ''2'', sampleVar ''Z'' ''3''],
      Variables := [0, 1, 2],
      ByName := [(''X'', 0), (''Y'', 1), (''Z'', 2)]\<rparr>"

definition sampleSecond :: Resolution where
  "sampleSecond = (newResolution ''b'')
     \<lparr>heap := [sampleVar ''W'' ''0'', sampleVar ''Y'' ''5'', sampleVar ''Z'' ''3''],
      Variables := [0, 1, 2],
      ByName := [(''W'', 0), (''Y'', 1), (''Z'', 2)]\<rparr>"

text \<open>
  A project directory \<^verbatim>\<open>proj\<close> with nothing in it, and the means to put files there.
  The sample manifest is the one document that the decoder of the sample worlds accepts.
\<close>

definition emptyWorld :: world where
  "emptyWorld =
     \<lparr>pathJoin = (\<lambda>dir name. dir @ ''/'' @ name),
       pathDir = (\<lambda>path. ''proj''),
       Stat = (\<lambda>path. False),
       Open = (\<lambda>path. Inl ''no such file or directory''),
       ReadDir = (\<lambda>path. []),
       Environ = [],
       Unmarshal = (\<lambda>dat. Inl ''yaml: unmarshal errors''),
       Sprint = (\<lambda>y. [])\<rparr>"

definition withFile :: "string \<Rightarrow> string \<Rightarrow> world \<Rightarrow> world" where
  "withFile path dat w =
     w\<lparr>Stat := (Stat w)(path := True), Open := (Open w)(path := Inr (dat, None))\<rparr>"

definition withLockedFile :: "string \<Rightarrow> world \<Rightarrow> world" where
  "withLockedFile path w =
     w\<lparr>Stat := (Stat w)(path := True), Open := (Open w)(path := Inl ''permission denied'')\<rparr>"

definition withManifest :: "string \<Rightarrow> string \<Rightarrow> (string \<times> composeService) list \<Rightarrow> world \<Rightarrow> world" where
  "withManifest path dat services w =
     (withFile path dat w)\<lparr>Unmarshal := (Unmarshal w)(dat := Inr services)\<rparr>"

definition strictOptions :: Options where
  "strictOptions = \<lparr>IncludeOSEnv = False, ServiceName = [], StrictMode = True, CompareWith = []\<rparr>"

definition plainOptions :: Options where
  "plainOptions = \<lparr>IncludeOSEnv = False, ServiceName = [], StrictMode = False, CompareWith = []\<rparr>"

definition ambientOptions :: Options where
  "ambientOptions = \<lparr>IncludeOSEnv = True, ServiceName = [], StrictMode = False, CompareWith = []\<rparr>"

text \<open>The base file \<^verbatim>\<open>.env\<close> holds the single line \<^verbatim>\<open>EMPTY_VAR=\<close>.\<close>

definition emptyVarWorld :: world where
  "emptyVarWorld = withFile ''proj/.env'' (''EMPTY_VAR='' @ [CHR 0x0A]) emptyWorld"

text \<open>
  The base file sets \<^verbatim>\<open>X=1\<close>; the manifest \<^verbatim>\<open>docker-compose.yml\<close> has the services
  \<^verbatim>\<open>api\<close> and \<^verbatim>\<open>web\<close>, with the inline lists \<^verbatim>\<open>X=2\<close> and \<^verbatim>\<open>X=3\<close>.
\<close>

definition twoServices :: "(string \<times> composeService) list" where
  "twoServices =
     [(''api'', \<lparr>Environment = YSeq [YString ''X=2''], EnvFile = YNil\<rparr>),
      (''web'', \<lparr>Environment = YSeq [YString ''X=3''], EnvFile = YNil\<rparr>)]"

definition twoServicesWorld :: world where
  "twoServicesWorld =
     withManifest ''proj/docker-compose.yml''
       ''services: {api: {environment: [X=2]}, web: {environment: [X=3]}}'' twoServices
       (withFile ''proj/.env'' (''X=1'' @ [CHR 0x0A]) emptyWorld)"

text \<open>
  The manifest names the file \<^verbatim>\<open>app.env\<close> for its service \<^verbatim>\<open>api\<close>; the file holds the
  lines \<^verbatim>\<open>export FOO=bar\<close> and \<^verbatim>\<open>=x\<close>.
\<close>

definition refServices :: "(string \<times> composeService) list" where
  "refServices = [(''api'', \<lparr>Environment = YNil, EnvFile = YString ''app.env''\<rparr>)]"

definition appEnvText :: string where
  "appEnvText = ''export FOO=bar'' @ [CHR 0x0A] @ ''=x'' @ [CHR 0x0A]"

definition refWorld :: world where
  "refWorld =
     withManifest ''proj/docker-compose.yml'' ''services: {api: {env_file: app.env}}'' refServices
       (withFile ''proj/app.env'' appEnvText emptyWorld)"

text \<open>The same manifest, but \<^verbatim>\<open>app.env\<close> exists and cannot be opened.\<close>

definition lockedRefWorld :: world where
  "lockedRefWorld =
     withManifest ''proj/docker-compose.yml'' ''services: {api: {env_file: app.env}}'' refServices
       (withLockedFile ''proj/app.env'' emptyWorld)"

text \<open>The base file cannot be opened.\<close>

definition lockedEnvWorld :: world where
  "lockedEnvWorld = withLockedFile ''proj/.env'' emptyWorld"

text \<open>The base file sets \<^verbatim>\<open>K=a\<close>, and so does the environment of the process.\<close>

definition ambientWorld :: world where
  "ambientWorld =
     (withFile ''proj/.env'' (''K=a'' @ [CHR 0x0A]) emptyWorld)\<lparr>Environ := [''HOME=/root'', ''K=a'']\<rparr>"

text \<open>The names and final values of the Variables of a Resolution, in the order of its list.\<close>

definition finalView :: "Resolution \<Rightarrow> (string \<times> string) list" where
  "finalView r = map (\<lambda>a. (Name (heap r ! a), FinalValue (heap r ! a))) (Variables r)"

section \<open>Properties\<close>

subsection \<open>unquote\<close>

lemma unquote_wrapped: "q = dquote \<or> q = squote \<Longrightarrow> unquote (q # x @ [q]) = x"
  by (auto simp: unquote_def nth_append)

lemma unquote_shape:
  assumes "unquote s \<noteq> s"
  shows "\<exists>q x. (q = dquote \<or> q = squote) \<and> s = q # x @ [q]"
proof -
  from assms have len: "2 \<le> length s"
    and q: "(s ! 0 = dquote \<and> s ! (length s - 1) = dquote) \<or>
            (s ! 0 = squote \<and> s ! (length s - 1) = squote)"
    by (auto simp: unquote_def split: if_splits)
  from len obtain c t where s: "s = c # t" and t: "t \<noteq> []"
    by (cases s) fastforce+
  from t obtain x d where t': "t = x @ [d]"
    by (cases t rule: rev_cases) auto
  from q have "c = d" and "c = dquote \<or> c = squote"
    by (auto simp: s t' nth_append)
  then show ?thesis using s t' by blast
qed

text \<open>
  C5 (as the code has it). \<^const>\<open>unquote\<close> looks at the first and the last byte only.
  A value of at least two bytes whose first and last byte are the same quote character
  (both \<^verbatim>\<open>"\<close> or both \<^verbatim>\<open>'\<close>) loses exactly that outer pair, whatever stands between them;
  every other value, in particular one that opens with one kind of quote and closes with
  the other, is returned unchanged.
\<close>

theorem unquote_first_last:
  "((q = dquote \<or> q = squote) \<longrightarrow> unquote (q # x @ [q]) = x) \<and>
   ((\<forall>q x. (q = dquote \<or> q = squote) \<longrightarrow> s \<noteq> q # x @ [q]) \<longrightarrow> unquote s = s) \<and>
   ((q = dquote \<and> q' = squote \<or> q = squote \<and> q' = dquote) \<longrightarrow>
      unquote (q # x @ [q']) = q # x @ [q'])"
proof (intro conjI impI)
  assume "q = dquote \<or> q = squote"
  then show "unquote (q # x @ [q]) = x" by (rule unquote_wrapped)
next
  assume "\<forall>q x. (q = dquote \<or> q = squote) \<longrightarrow> s \<noteq> q # x @ [q]"
  then show "unquote s = s" using unquote_shape [of s] by blast
next
  assume "q = dquote \<and> q' = squote \<or> q = squote \<and> q' = dquote"
  then show "unquote (q # x @ [q']) = q # x @ [q']"
    by (auto simp: unquote_def nth_append dquote_def squote_def)
qed

text \<open>
  Witness: \<^verbatim>\<open>"x"\<close> and \<^verbatim>\<open>'x'\<close> yield \<^verbatim>\<open>x\<close>, the unwrapped \<^verbatim>\<open>abc\<close> and the mismatched
  \<^verbatim>\<open>"x'\<close> stay as they are.
\<close>

theorem unquote_first_last_witness:
  "unquote (dquote # ''x'' @ [dquote]) = ''x'' \<and>
   unquote (squote # ''x'' @ [squote]) = ''x'' \<and>
   unquote ''abc'' = ''abc'' \<and>
   unquote (dquote # ''x'' @ [squote]) = dquote # ''x'' @ [squote]"
proof -
  have a: "\<forall>q x. (q = dquote \<or> q = squote) \<longrightarrow> ''abc'' \<noteq> q # x @ [q]"
    by (auto simp: dquote_def squote_def Cons_eq_append_conv)
  show ?thesis
    using unquote_first_last [of dquote "''x''" "''abc''" squote]
      unquote_first_last [of squote "''x''" "''abc''" dquote] a
    by simp
qed

text \<open>
  C5, the claim's own example: the value \<^verbatim>\<open>'it'"s'\<close> begins and ends with a single quote,
  so the code strips that pair and returns \<^verbatim>\<open>it'"s\<close>; it does not leave the value
  unchanged.
\<close>

theorem unquote_mismatched_example_counterexample:
  "unquote (squote # ''it'' @ [squote, dquote] @ ''s'' @ [squote])
     = ''it'' @ [squote, dquote] @ ''s'' \<and>
   unquote (squote # ''it'' @ [squote, dquote] @ ''s'' @ [squote])
     \<noteq> squote # ''it'' @ [squote, dquote] @ ''s'' @ [squote]"
  by (simp add: unquote_def dquote_def squote_def)

subsection \<open>The sample runtimes meet the documentation\<close>

lemma mset_insertBy: "mset (insertBy lt x ys) = add_mset x (mset ys)"
  by (induction ys) auto

lemma set_insertBy: "set (insertBy lt x ys) = insert x (set ys)"
  by (induction ys) auto

lemma sorted_insertBy:
  fixes f :: "'a \<Rightarrow> 'b::linorder"
  shows "sorted_wrt (\<lambda>a b. \<not> f b < f a) ys \<Longrightarrow> sorted_wrt (\<lambda>a b. \<not> f b < f a) (insertBy (\<lambda>a b. f a < f b) x ys)"
  by (induction ys) (auto simp: set_insertBy)

lemma fold_insertBy:
  fixes f :: "'a \<Rightarrow> 'b::linorder"
  shows "mset (fold (insertBy lt) xs acc) = mset xs + mset acc"
    and "sorted_wrt (\<lambda>a b. \<not> f b < f a) acc \<Longrightarrow> sorted_wrt (\<lambda>a b. \<not> f b < f a) (fold (insertBy (\<lambda>a b. f a < f b)) xs acc)"
  by (induction xs arbitrary: acc) (auto simp: mset_insertBy sorted_insertBy)

lemma sorts_insertionSort:
  fixes f :: "'a \<Rightarrow> 'b::linorder"
  shows "sorts insertionSort (\<lambda>a b. f a < f b)"
  unfolding sorts_def insertionSort_def
  using fold_insertBy(1) [of "\<lambda>a b. f a < f b" _ "[]"] fold_insertBy(2) [of f "[]"] by simp

lemma mset_insertFront: "mset (insertFront lt x ys) = add_mset x (mset ys)"
  by (induction ys) auto

lemma set_insertFront: "set (insertFront lt x ys) = insert x (set ys)"
  by (induction ys) auto

lemma sorted_insertFront:
  fixes f :: "'a \<Rightarrow> 'b::linorder"
  shows "sorted_wrt (\<lambda>a b. \<not> f b < f a) ys \<Longrightarrow> sorted_wrt (\<lambda>a b. \<not> f b < f a) (insertFront (\<lambda>a b. f a < f b) x ys)"
  by (induction ys) (auto simp: set_insertFront)

lemma fold_insertFront:
  fixes f :: "'a \<Rightarrow> 'b::linorder"
  shows "mset (fold (insertFront lt) xs acc) = mset xs + mset acc"
    and "sorted_wrt (\<lambda>a b. \<not> f b < f a) acc \<Longrightarrow> sorted_wrt (\<lambda>a b. \<not> f b < f a) (fold (insertFront (\<lambda>a b. f a < f b)) xs acc)"
  by (induction xs arbitrary: acc) (auto simp: mset_insertFront sorted_insertFront)

lemma sorts_reversingSort:
  fixes f :: "'a \<Rightarrow> 'b::linorder"
  shows "sorts reversingSort (\<lambda>a b. f a < f b)"
  unfolding sorts_def reversingSort_def
  using fold_insertFront(1) [of "\<lambda>a b. f a < f b" _ "[]"] fold_insertFront(2) [of f "[]"] by simp

text \<open>A list sorted on distinct keys is the only sorted arrangement of its elements.\<close>

lemma sorted_distinct_keys_unique:
  fixes f :: "'a \<Rightarrow> 'b::linorder"
  assumes "sorted_wrt (\<lambda>a b. \<not> f b < f a) xs" "sorted_wrt (\<lambda>a b. \<not> f b < f a) ys"
    and "mset xs = mset ys" "distinct (map f xs)"
  shows "xs = ys"
proof -
  have dy: "distinct (map f ys)"
    using assms(3,4) by (metis distinct_map mset_eq_setD mset_map mset_eq_imp_distinct_iff)
  have sx: "sorted (map f xs)" using assms(1) by (simp add: sorted_map not_less)
  have sy: "sorted (map f ys)" using assms(2) by (simp add: sorted_map not_less)
  have "set (map f xs) = set (map f ys)" using assms(3) by (metis mset_eq_setD set_map)
  then have "map f xs = map f ys"
    using sx sy dy assms(4) by (rule_tac sorted_distinct_set_unique) auto
  moreover have "inj_on f (set xs \<union> set ys)"
    using assms(3,4) by (metis distinct_map mset_eq_setD sup.idem)
  ultimately show ?thesis by (rule_tac inj_on_map_eq_map [THEN iffD1]) auto
qed

lemma permutes_id: "permutes id"
  by (simp add: permutes_def)

lemma permutes_rev: "permutes rev"
  by (simp add: permutes_def)

lemma compareRuntime_stable: "compareRuntime stableRuntime"
  by (simp add: compareRuntime_def stableRuntime_def sorts_insertionSort permutes_id)

lemma compareRuntime_reversing: "compareRuntime reversingRuntime"
  by (simp add: compareRuntime_def reversingRuntime_def sorts_reversingSort permutes_rev)

lemma resolveRuntime_stable: "resolveRuntime stableRuntime"
  by (simp add: resolveRuntime_def stableRuntime_def byPrecedence_def [abs_def]
      sorts_insertionSort permutes_id)

lemma resolveRuntime_reversing: "resolveRuntime reversingRuntime"
  by (simp add: resolveRuntime_def reversingRuntime_def byPrecedence_def [abs_def]
      sorts_reversingSort permutes_rev)

subsection \<open>Compare\<close>

lemma sort_mset_cong: "mset xs = mset ys \<Longrightarrow> sort xs = sort (ys :: 'a::linorder list)"
  by (rule properties_for_sort) simp_all

lemma distinct_fold_update:
  "distinct (map fst acc) \<Longrightarrow>
   distinct (map fst (fold (\<lambda>a m. AList.update (k a) (v a) m) xs acc))"
  by (induction xs arbitrary: acc) (simp_all add: distinct_update)

lemma distinct_finalValues: "distinct (map fst (finalValues r))"
  unfolding finalValues_def by (rule distinct_fold_update) simp

lemma mset_map_filter_permutes:
  "permutes rng \<Longrightarrow> mset (List.map_filter g (rng xs)) = mset (List.map_filter g xs)"
  by (simp add: permutes_def map_filter_def)

lemma mset_filter_permutes:
  "permutes rng \<Longrightarrow> mset (map f (filter P (rng xs))) = mset (map f (filter P xs))"
  by (simp add: permutes_def)

lemma set_diffEntries:
  assumes "distinct (map fst fa)"
  shows "set (List.map_filter (diffEntry fb) fa) =
    {\<lparr>DiffName = n, FirstValue = v1, SecondValue = v2\<rparr> | n v1 v2.
       map_of fa n = Some v1 \<and> map_of fb n = Some v2 \<and> v1 \<noteq> v2}"
  using assms
  by (auto simp: map_filter_def diffEntry_def image_iff split: option.splits if_splits)
     (force simp: split: option.splits)+

lemma names_diffEntries:
  "map DiffName (List.map_filter (diffEntry fb) fa) = map fst (filter (\<lambda>x. diffEntry fb x \<noteq> None) fa)"
  by (induction fa) (auto simp: map_filter_def diffEntry_def split: option.splits if_splits)

lemma distinct_names_diffEntries:
  "distinct (map fst fa) \<Longrightarrow> distinct (map DiffName (List.map_filter (diffEntry fb) fa))"
  by (simp add: names_diffEntries distinct_map_filter)

lemma swap_diffEntries:
  assumes "distinct (map fst fa)" "distinct (map fst fb)"
  shows "mset (map swapDiff (List.map_filter (diffEntry fb) fa)) = mset (List.map_filter (diffEntry fa) fb)"
proof -
  have d1: "distinct (map swapDiff (List.map_filter (diffEntry fb) fa))"
    using distinct_names_diffEntries [OF assms(1), of fb]
    by (metis (no_types, lifting) DiffVar.select_convs(1) distinct_map inj_on_def swapDiff_def)
  have d2: "distinct (List.map_filter (diffEntry fa) fb)"
    using distinct_names_diffEntries [OF assms(2), of fa] by (simp add: distinct_map)
  have st: "set (map swapDiff (List.map_filter (diffEntry fb) fa)) = set (List.map_filter (diffEntry fa) fb)"
    unfolding set_map set_diffEntries [OF assms(1)] set_diffEntries [OF assms(2)]
  proof (intro equalityI subsetI)
    fix d
    assume "d \<in> swapDiff ` {\<lparr>DiffName = n, FirstValue = v1, SecondValue = v2\<rparr> | n v1 v2.
       map_of fa n = Some v1 \<and> map_of fb n = Some v2 \<and> v1 \<noteq> v2}"
    then obtain n v1 v2 where "map_of fa n = Some v1" "map_of fb n = Some v2" "v1 \<noteq> v2"
      and "d = swapDiff \<lparr>DiffName = n, FirstValue = v1, SecondValue = v2\<rparr>" by auto
    then show "d \<in> {\<lparr>DiffName = n, FirstValue = v1, SecondValue = v2\<rparr> | n v1 v2.
       map_of fb n = Some v1 \<and> map_of fa n = Some v2 \<and> v1 \<noteq> v2}"
      by (auto simp: swapDiff_def)
  next
    fix d
    assume "d \<in> {\<lparr>DiffName = n, FirstValue = v1, SecondValue = v2\<rparr> | n v1 v2.
       map_of fb n = Some v1 \<and> map_of fa n = Some v2 \<and> v1 \<noteq> v2}"
    then obtain n v1 v2 where h: "map_of fb n = Some v1" "map_of fa n = Some v2" "v1 \<noteq> v2"
      and d: "d = \<lparr>DiffName = n, FirstValue = v1, SecondValue = v2\<rparr>" by auto
    have "d = swapDiff \<lparr>DiffName = n, FirstValue = v2, SecondValue = v1\<rparr>"
      by (simp add: d swapDiff_def)
    moreover have "\<lparr>DiffName = n, FirstValue = v2, SecondValue = v1\<rparr> \<in>
       {\<lparr>DiffName = n, FirstValue = v1, SecondValue = v2\<rparr> | n v1 v2.
       map_of fa n = Some v1 \<and> map_of fb n = Some v2 \<and> v1 \<noteq> v2}"
      using h by auto
    ultimately show "d \<in> swapDiff ` {\<lparr>DiffName = n, FirstValue = v1, SecondValue = v2\<rparr> | n v1 v2.
       map_of fa n = Some v1 \<and> map_of fb n = Some v2 \<and> v1 \<noteq> v2}"
      by (rule image_eqI)
  qed
  show ?thesis using set_eq_iff_mset_eq_distinct [OF d1 d2] st by blast
qed

lemma Compare_fields:
  "OnlyInFirst (Compare rt A B) =
     sort (map fst (filter (\<lambda>(name, _). map_of (finalValues B) name = None)
       (rangeOnlyFirst rt (finalValues A))))"
  "OnlyInSecond (Compare rt A B) =
     sort (map fst (filter (\<lambda>(name, _). map_of (finalValues A) name = None)
       (rangeOnlySecond rt (finalValues B))))"
  "Different (Compare rt A B) =
     sortDiffs rt (\<lambda>a b. DiffName a < DiffName b)
       (List.map_filter (diffEntry (finalValues B)) (rangeBoth rt (finalValues A)))"
  "Same (Compare rt A B) =
     sort (List.map_filter (sameEntry (finalValues B)) (rangeBoth rt (finalValues A)))"
  by (simp_all add: Compare_def Let_def diffEntry_def sameEntry_def)

lemma set_sameEntries:
  assumes "distinct (map fst fa)"
  shows "set (List.map_filter (sameEntry fb) fa) =
    {n. \<exists>v. map_of fa n = Some v \<and> map_of fb n = Some v}"
  using assms
  by (auto simp: map_filter_def sameEntry_def image_iff split: option.splits if_splits)
     (force simp: split: option.splits)+

lemma names_sameEntries:
  "List.map_filter (sameEntry fb) fa = map fst (filter (\<lambda>x. sameEntry fb x \<noteq> None) fa)"
  by (induction fa) (auto simp: map_filter_def sameEntry_def split: option.splits if_splits)

lemma same_sym:
  assumes "distinct (map fst fa)" "distinct (map fst fb)"
  shows "mset (List.map_filter (sameEntry fb) fa) = mset (List.map_filter (sameEntry fa) fb)"
proof -
  have d1: "distinct (List.map_filter (sameEntry fb) fa)"
    using assms(1) by (simp add: names_sameEntries distinct_map_filter)
  have d2: "distinct (List.map_filter (sameEntry fa) fb)"
    using assms(2) by (simp add: names_sameEntries distinct_map_filter)
  have st: "set (List.map_filter (sameEntry fb) fa) = set (List.map_filter (sameEntry fa) fb)"
    unfolding set_sameEntries [OF assms(1)] set_sameEntries [OF assms(2)] by auto
  show ?thesis using set_eq_iff_mset_eq_distinct [OF d1 d2] st by blast
qed

lemma sortDiffs_unique:
  assumes "compareRuntime rt" "compareRuntime rt'"
    and "mset xs = mset ys" "distinct (map DiffName xs)"
  shows "sortDiffs rt (\<lambda>a b. DiffName a < DiffName b) xs =
         sortDiffs rt' (\<lambda>a b. DiffName a < DiffName b) ys"
proof (rule sorted_distinct_keys_unique [where f = DiffName])
  let ?lt = "\<lambda>a b. DiffName a < DiffName b"
  have s: "sorts (sortDiffs rt) ?lt" and s': "sorts (sortDiffs rt') ?lt"
    using assms(1,2) by (simp_all add: compareRuntime_def)
  show "sorted_wrt (\<lambda>a b. \<not> DiffName b < DiffName a) (sortDiffs rt ?lt xs)"
    using s by (simp add: sorts_def)
  show "sorted_wrt (\<lambda>a b. \<not> DiffName b < DiffName a) (sortDiffs rt' ?lt ys)"
    using s' by (simp add: sorts_def)
  have m: "mset (sortDiffs rt ?lt xs) = mset xs" using s by (simp add: sorts_def)
  moreover have "mset (sortDiffs rt' ?lt ys) = mset ys" using s' by (simp add: sorts_def)
  ultimately show "mset (sortDiffs rt ?lt xs) = mset (sortDiffs rt' ?lt ys)"
    using assms(3) by simp
  have "mset (map DiffName (sortDiffs rt ?lt xs)) = mset (map DiffName xs)"
    using m by (metis mset_map)
  then show "distinct (map DiffName (sortDiffs rt ?lt xs))"
    using assms(4) by (metis mset_eq_imp_distinct_iff)
qed

lemma sortDiffs_map_swap:
  assumes "compareRuntime rt"
  shows "sorted_wrt (\<lambda>a b. \<not> DiffName b < DiffName a)
           (map swapDiff (sortDiffs rt (\<lambda>a b. DiffName a < DiffName b) xs))"
    and "mset (map swapDiff (sortDiffs rt (\<lambda>a b. DiffName a < DiffName b) xs))
           = mset (map swapDiff xs)"
    and "sorted (map DiffName (sortDiffs rt (\<lambda>a b. DiffName a < DiffName b) xs))"
proof -
  let ?lt = "\<lambda>a b. DiffName a < DiffName b"
  have s: "sorts (sortDiffs rt) ?lt" using assms by (simp add: compareRuntime_def)
  then have a: "sorted_wrt (\<lambda>a b. \<not> DiffName b < DiffName a) (sortDiffs rt ?lt xs)"
    and m: "mset (sortDiffs rt ?lt xs) = mset xs" by (simp_all add: sorts_def)
  show "sorted_wrt (\<lambda>a b. \<not> DiffName b < DiffName a) (map swapDiff (sortDiffs rt ?lt xs))"
    using a by (simp add: sorted_wrt_map swapDiff_def)
  show "mset (map swapDiff (sortDiffs rt ?lt xs)) = mset (map swapDiff xs)"
    using m by simp
  show "sorted (map DiffName (sortDiffs rt ?lt xs))"
    using a by (simp add: sorted_map not_less)
qed

text \<open>
  C9. For every two Resolutions and any two runtimes that meet Go's documentation, one for
  each call: the names only in the first of \<^verbatim>\<open>Compare(A, B)\<close> are the names only in the
  second of \<^verbatim>\<open>Compare(B, A)\<close> and the other way round, the pairs of \<^verbatim>\<open>Different\<close> of
  \<^verbatim>\<open>Compare(B, A)\<close> are those of \<^verbatim>\<open>Compare(A, B)\<close> with the two values exchanged, the
  names in \<^verbatim>\<open>Same\<close> agree, the result does not depend on the runtime (the map iteration
  order and the sorting algorithm), and all four lists are sorted by name.
\<close>

theorem Compare_symmetric:
  assumes "compareRuntime rt" and "compareRuntime rt'"
  shows "OnlyInFirst (Compare rt A B) = OnlyInSecond (Compare rt' B A) \<and>
         OnlyInSecond (Compare rt A B) = OnlyInFirst (Compare rt' B A) \<and>
         map swapDiff (Different (Compare rt A B)) = Different (Compare rt' B A) \<and>
         Same (Compare rt A B) = Same (Compare rt' B A) \<and>
         Compare rt A B = Compare rt' A B \<and>
         sorted (OnlyInFirst (Compare rt A B)) \<and>
         sorted (OnlyInSecond (Compare rt A B)) \<and>
         sorted (map DiffName (Different (Compare rt A B))) \<and>
         sorted (Same (Compare rt A B))"
proof -
  let ?fa = "finalValues A" and ?fb = "finalValues B"
  let ?lt = "\<lambda>a b. DiffName a < DiffName b"
  have da: "distinct (map fst ?fa)" and db: "distinct (map fst ?fb)"
    by (rule distinct_finalValues)+
  have p: "permutes (rangeOnlyFirst rt)" "permutes (rangeOnlySecond rt)" "permutes (rangeBoth rt)"
    "permutes (rangeOnlyFirst rt')" "permutes (rangeOnlySecond rt')" "permutes (rangeBoth rt')"
    using assms by (simp_all add: compareRuntime_def)
  have 1: "OnlyInFirst (Compare rt A B) = OnlyInSecond (Compare rt' B A)"
    unfolding Compare_fields
    by (rule sort_mset_cong) (simp only: mset_filter_permutes [OF p(1)] mset_filter_permutes [OF p(5)])
  have 2: "OnlyInSecond (Compare rt A B) = OnlyInFirst (Compare rt' B A)"
    unfolding Compare_fields
    by (rule sort_mset_cong) (simp only: mset_filter_permutes [OF p(2)] mset_filter_permutes [OF p(4)])
  have dd: "distinct (map DiffName (List.map_filter (diffEntry ?fb) (rangeBoth rt ?fa)))"
  proof -
    have "mset (map DiffName (List.map_filter (diffEntry ?fb) (rangeBoth rt ?fa))) =
          mset (map DiffName (List.map_filter (diffEntry ?fb) ?fa))"
      using mset_map_filter_permutes [OF p(3)] by (metis mset_map)
    then show ?thesis
      using distinct_names_diffEntries [OF da, of ?fb] by (metis mset_eq_imp_distinct_iff)
  qed
  have 3: "map swapDiff (Different (Compare rt A B)) = Different (Compare rt' B A)"
    unfolding Compare_fields
  proof (rule sorted_distinct_keys_unique [where f = DiffName])
    show "sorted_wrt (\<lambda>a b. \<not> DiffName b < DiffName a)
       (map swapDiff (sortDiffs rt ?lt (List.map_filter (diffEntry ?fb) (rangeBoth rt ?fa))))"
      by (rule sortDiffs_map_swap(1) [OF assms(1)])
    have s': "sorts (sortDiffs rt') ?lt" using assms(2) by (simp add: compareRuntime_def)
    show "sorted_wrt (\<lambda>a b. \<not> DiffName b < DiffName a)
       (sortDiffs rt' ?lt (List.map_filter (diffEntry ?fa) (rangeBoth rt' ?fb)))"
      using s' by (simp add: sorts_def)
    have "mset (sortDiffs rt' ?lt (List.map_filter (diffEntry ?fa) (rangeBoth rt' ?fb)))
        = mset (List.map_filter (diffEntry ?fa) ?fb)"
      using s' mset_map_filter_permutes [OF p(6)] by (simp add: sorts_def)
    moreover have "mset (map swapDiff (List.map_filter (diffEntry ?fb) (rangeBoth rt ?fa)))
        = mset (map swapDiff (List.map_filter (diffEntry ?fb) ?fa))"
      using mset_map_filter_permutes [OF p(3)] by (metis mset_map)
    ultimately show "mset (map swapDiff (sortDiffs rt ?lt (List.map_filter (diffEntry ?fb) (rangeBoth rt ?fa))))
        = mset (sortDiffs rt' ?lt (List.map_filter (diffEntry ?fa) (rangeBoth rt' ?fb)))"
      using sortDiffs_map_swap(2) [OF assms(1)] swap_diffEntries [OF da db] by simp
    have "map DiffName (map swapDiff (sortDiffs rt ?lt (List.map_filter (diffEntry ?fb) (rangeBoth rt ?fa))))
        = map DiffName (sortDiffs rt ?lt (List.map_filter (diffEntry ?fb) (rangeBoth rt ?fa)))"
      by (simp add: swapDiff_def)
    moreover have "mset (map DiffName (sortDiffs rt ?lt (List.map_filter (diffEntry ?fb) (rangeBoth rt ?fa))))
        = mset (map DiffName (List.map_filter (diffEntry ?fb) (rangeBoth rt ?fa)))"
      using assms(1) by (simp add: compareRuntime_def sorts_def)
    ultimately show "distinct (map DiffName (map swapDiff
        (sortDiffs rt ?lt (List.map_filter (diffEntry ?fb) (rangeBoth rt ?fa)))))"
      using dd by (metis mset_eq_imp_distinct_iff)
  qed
  have 4: "Same (Compare rt A B) = Same (Compare rt' B A)"
    unfolding Compare_fields
    by (rule sort_mset_cong)
       (simp only: mset_map_filter_permutes [OF p(3)] mset_map_filter_permutes [OF p(6)]
          same_sym [OF da db])
  have 5: "Compare rt A B = Compare rt' A B"
  proof -
    have "OnlyInFirst (Compare rt A B) = OnlyInFirst (Compare rt' A B)"
      unfolding Compare_fields
      by (rule sort_mset_cong) (simp only: mset_filter_permutes [OF p(1)] mset_filter_permutes [OF p(4)])
    moreover have "OnlyInSecond (Compare rt A B) = OnlyInSecond (Compare rt' A B)"
      unfolding Compare_fields
      by (rule sort_mset_cong) (simp only: mset_filter_permutes [OF p(2)] mset_filter_permutes [OF p(5)])
    moreover have "Same (Compare rt A B) = Same (Compare rt' A B)"
      unfolding Compare_fields
      by (rule sort_mset_cong)
         (simp only: mset_map_filter_permutes [OF p(3)] mset_map_filter_permutes [OF p(6)])
    moreover have "Different (Compare rt A B) = Different (Compare rt' A B)"
      unfolding Compare_fields
      by (rule sortDiffs_unique [OF assms])
         (simp_all only: mset_map_filter_permutes [OF p(3)] mset_map_filter_permutes [OF p(6)] dd)
    ultimately show ?thesis by (simp add: CompareResult.equality)
  qed
  have 6: "sorted (OnlyInFirst (Compare rt A B))" "sorted (OnlyInSecond (Compare rt A B))"
    "sorted (Same (Compare rt A B))"
    unfolding Compare_fields by simp_all
  have 7: "sorted (map DiffName (Different (Compare rt A B)))"
    unfolding Compare_fields by (rule sortDiffs_map_swap(3) [OF assms(1)])
  from 1 2 3 4 5 6 7 show ?thesis by blast
qed

lemma sample_Compare:
  "Compare stableRuntime sampleFirst sampleSecond =
     \<lparr>OnlyInFirst = [''X''], OnlyInSecond = [''W''],
       Different = [\<lparr>DiffName = ''Y'', FirstValue = ''2'', SecondValue = ''5''\<rparr>],
       Same = [''Z'']\<rparr>"
  by (simp add: Compare_def finalValues_def sampleFirst_def sampleSecond_def sampleVar_def
      stableRuntime_def newResolution_def insertionSort_def List.map_filter_def)

text \<open>
  Witness: the two sample Resolutions, compared one way round under the stable runtime and
  the other way round under the reversing one.
\<close>

theorem Compare_symmetric_witness:
  "OnlyInFirst (Compare stableRuntime sampleFirst sampleSecond) = [''X''] \<and>
   OnlyInSecond (Compare reversingRuntime sampleSecond sampleFirst) = [''X''] \<and>
   OnlyInFirst (Compare reversingRuntime sampleSecond sampleFirst) = [''W''] \<and>
   Different (Compare reversingRuntime sampleSecond sampleFirst) =
     [\<lparr>DiffName = ''Y'', FirstValue = ''5'', SecondValue = ''2''\<rparr>] \<and>
   Same (Compare reversingRuntime sampleSecond sampleFirst) = [''Z'']"
  using Compare_symmetric [OF compareRuntime_stable compareRuntime_reversing,
      of sampleFirst sampleSecond]
  by (simp add: sample_Compare swapDiff_def)

end
